theory Spec2Isabelle
  imports
    Main
    "HOL-Library.Word"
    "HOL-Library.AList"
    "HOL-Library.Char_ord"
    "HOL-Library.List_Lexorder"
begin

unbundle bit_operations_syntax

section \<open>Python values, exceptions and the decoder object\<close>

text \<open>
  The decoder of \<^verbatim>\<open>thrift_decoder.py\<close> returns ordinary Python values: booleans,
  integers, floats, strings, lists and dictionaries. A float is kept as the 64-bit
  IEEE-754 pattern that \<^verbatim>\<open>struct.unpack("!d", ...)\<close> reads; a string is kept as its
  UTF-8 encoding, one \<^typ>\<open>char\<close> per byte (the encoding is injective and orders
  strings as Python does, by code point); a dictionary is the list of its items in
  insertion order.
\<close>

type_synonym byte = "8 word"

datatype pyval =
    PBool bool
  | PInt int
  | PFloat "64 word"
  | PStr string
  | PList "pyval list"
  | PDict "(pyval \<times> pyval) list"

text \<open>An exception is its class and the text \<^verbatim>\<open>str(e)\<close> gives.\<close>

datatype exc =
    EOFError string
  | ValueError string
  | TypeError string
  | UnicodeDecodeError string

fun exc_str :: "exc \<Rightarrow> string" where
  "exc_str (EOFError m) = m"
| "exc_str (ValueError m) = m"
| "exc_str (TypeError m) = m"
| "exc_str (UnicodeDecodeError m) = m"

fun exc_type_name :: "exc \<Rightarrow> string" where
  "exc_type_name (EOFError m) = ''EOFError''"
| "exc_type_name (ValueError m) = ''ValueError''"
| "exc_type_name (TypeError m) = ''TypeError''"
| "exc_type_name (UnicodeDecodeError m) = ''UnicodeDecodeError''"

fun is_EOFError :: "exc \<Rightarrow> bool" where
  "is_EOFError (EOFError m) = True"
| "is_EOFError e = False"

text \<open>
  The attributes of a \<^verbatim>\<open>ThriftDecoder\<close>. \<open>stream\<close> holds the bytes of the
  \<^verbatim>\<open>BytesIO\<close> that lie after its read position; \<open>pos\<close> is the decoder's own
  counter, which only a completed read advances.
\<close>

record decoder =
  stream :: "byte list"
  pos :: int
  data_len :: int
  method_name :: "string option"
  message_type :: "int option"
  field_name_map :: "(int \<times> string) list"

text \<open>
  A method of the decoder returns a value or raises, and in both cases leaves the
  decoder changed: the result is the outcome paired with the decoder after the call.
\<close>

type_synonym 'a res = "(exc + 'a) \<times> decoder"

subsection \<open>Rendering integers and bytes\<close>

definition hex_digits :: string where
  "hex_digits = ''0123456789abcdef''"

text \<open>The decimal digits of a number that is not negative.\<close>

function str_nat :: "int \<Rightarrow> string" where
  "str_nat n = (if n < 10 then [hex_digits ! nat n]
                else str_nat (n div 10) @ [hex_digits ! nat (n mod 10)])"
  by pat_completeness auto
termination
  by (relation "measure nat") auto

declare str_nat.simps [simp del]

text \<open>\<^verbatim>\<open>str(i)\<close> of an integer.\<close>

definition str_int :: "int \<Rightarrow> string" where
  "str_int i = (if i < 0 then CHR ''-'' # str_nat (- i) else str_nat i)"

function hex_nat :: "int \<Rightarrow> string" where
  "hex_nat n = (if n < 16 then [hex_digits ! nat n]
                else hex_nat (n div 16) @ [hex_digits ! nat (n mod 16)])"
  by pat_completeness auto
termination
  by (relation "measure nat") auto

declare hex_nat.simps [simp del]

text \<open>\<^verbatim>\<open>hex(i)\<close> of the Python library.\<close>

definition py_hex :: "int \<Rightarrow> string" where
  "py_hex i = (if i < 0 then ''-0x'' @ hex_nat (- i) else ''0x'' @ hex_nat i)"

text \<open>\<^verbatim>\<open>bytes.hex()\<close>: two lower-case digits for each byte.\<close>

definition bytes_hex :: "byte list \<Rightarrow> string" where
  "bytes_hex bs = concat (map (\<lambda>b. [hex_digits ! (unat b div 16), hex_digits ! (unat b mod 16)]) bs)"

subsection \<open>Big-endian integers (\<^verbatim>\<open>struct.unpack\<close>)\<close>

definition be_uint :: "byte list \<Rightarrow> int" where
  "be_uint bs = foldl (\<lambda>a b. a * 256 + uint b) 0 bs"

definition be_sint :: "byte list \<Rightarrow> int" where
  "be_sint bs = (let u = be_uint bs; w = 8 * length bs
                 in if 2 ^ (w - 1) \<le> u then u - 2 ^ w else u)"

subsection \<open>UTF-8 (\<^verbatim>\<open>bytes.decode("utf-8")\<close>)\<close>

text \<open>
  The strict UTF-8 codec accepts exactly the well-formed byte sequences of RFC 3629:
  no overlong forms, no surrogates, nothing above U+10FFFF.
\<close>

definition in_range :: "byte \<Rightarrow> nat \<Rightarrow> nat \<Rightarrow> bool" where
  "in_range b lo hi = (lo \<le> unat b \<and> unat b \<le> hi)"

fun utf8_valid :: "byte list \<Rightarrow> bool" where
  "utf8_valid [] = True"
| "utf8_valid (b # bs) =
     (if unat b < 0x80 then utf8_valid bs
      else if in_range b 0xC2 0xDF then
        (case bs of c1 # r \<Rightarrow> in_range c1 0x80 0xBF \<and> utf8_valid r | _ \<Rightarrow> False)
      else if in_range b 0xE0 0xEF then
        (case bs of c1 # c2 # r \<Rightarrow>
           in_range c1 (if unat b = 0xE0 then 0xA0 else 0x80)
                       (if unat b = 0xED then 0x9F else 0xBF)
           \<and> in_range c2 0x80 0xBF \<and> utf8_valid r
         | _ \<Rightarrow> False)
      else if in_range b 0xF0 0xF4 then
        (case bs of c1 # c2 # c3 # r \<Rightarrow>
           in_range c1 (if unat b = 0xF0 then 0x90 else 0x80)
                       (if unat b = 0xF4 then 0x8F else 0xBF)
           \<and> in_range c2 0x80 0xBF \<and> in_range c3 0x80 0xBF \<and> utf8_valid r
         | _ \<Rightarrow> False)
      else False)"

definition bytes_text :: "byte list \<Rightarrow> string" where
  "bytes_text bs = map (\<lambda>b. char_of (unat b)) bs"

text \<open>
  \<open>utf8_decode\<close> is \<^verbatim>\<open>data.decode("utf-8")\<close>: the text, or nothing where the codec
  raises \<^verbatim>\<open>UnicodeDecodeError\<close>.
\<close>

definition utf8_decode :: "byte list \<Rightarrow> string option" where
  "utf8_decode bs = (if utf8_valid bs then Some (bytes_text bs) else None)"

subsection \<open>Dictionaries\<close>

text \<open>
  Python compares dictionary keys with \<^verbatim>\<open>==\<close> (after the hash): \<^verbatim>\<open>True == 1\<close>,
  \<^verbatim>\<open>1 == 1.0\<close>, \<^verbatim>\<open>0.0 == -0.0\<close>, and a NaN is equal to nothing. Every key the
  decoder stores is a newly created object, so identity never makes two keys equal.
\<close>

definition float_is_nan :: "64 word \<Rightarrow> bool" where
  "float_is_nan w = (drop_bit 52 w AND 0x7FF = 0x7FF \<and> w AND 0xFFFFFFFFFFFFF \<noteq> 0)"

definition float_eq :: "64 word \<Rightarrow> 64 word \<Rightarrow> bool" where
  "float_eq a b = (\<not> float_is_nan a \<and> \<not> float_is_nan b \<and>
     (a = b \<or> (a AND 0x7FFFFFFFFFFFFFFF = 0 \<and> b AND 0x7FFFFFFFFFFFFFFF = 0)))"

text \<open>The integer a float is equal to, if it is finite and integral.\<close>

definition float_int_value :: "64 word \<Rightarrow> int option" where
  "float_int_value w =
     (let e = unat (drop_bit 52 w AND 0x7FF);
          m = uint (w AND 0xFFFFFFFFFFFFF);
          sg = (if bit w 63 then - 1 else 1 :: int);
          M = (if e = 0 then m else 2 ^ 52 + m);
          E = (if e = 0 then 1 else e)
      in if e = 0x7FF then None
         else if 1075 \<le> E then Some (sg * M * 2 ^ (E - 1075))
         else if M mod 2 ^ (1075 - E) = 0 then Some (sg * (M div 2 ^ (1075 - E)))
         else None)"

fun py_eq :: "pyval \<Rightarrow> pyval \<Rightarrow> bool" where
  "py_eq (PStr a) (PStr b) = (a = b)"
| "py_eq (PInt a) (PInt b) = (a = b)"
| "py_eq (PBool a) (PBool b) = (a = b)"
| "py_eq (PFloat a) (PFloat b) = float_eq a b"
| "py_eq (PBool a) (PInt b) = ((if a then 1 else 0) = b)"
| "py_eq (PInt a) (PBool b) = (a = (if b then 1 else 0))"
| "py_eq (PInt a) (PFloat b) = (float_int_value b = Some a)"
| "py_eq (PFloat a) (PInt b) = (float_int_value a = Some b)"
| "py_eq (PBool a) (PFloat b) = (float_int_value b = Some (if a then 1 else 0))"
| "py_eq (PFloat a) (PBool b) = (float_int_value a = Some (if b then 1 else 0))"
| "py_eq a b = False"

text \<open>
  \<open>hashable\<close>: lists and dictionaries cannot be dictionary keys; using one raises
  \<^verbatim>\<open>TypeError: unhashable type: 'dict'\<close> (or \<^verbatim>\<open>'list'\<close>).
\<close>

fun hashable :: "pyval \<Rightarrow> bool" where
  "hashable (PList xs) = False"
| "hashable (PDict kvs) = False"
| "hashable v = True"

fun py_type_name :: "pyval \<Rightarrow> string" where
  "py_type_name (PBool b) = ''bool''"
| "py_type_name (PInt i) = ''int''"
| "py_type_name (PFloat w) = ''float''"
| "py_type_name (PStr s) = ''str''"
| "py_type_name (PList xs) = ''list''"
| "py_type_name (PDict kvs) = ''dict''"

definition unhashable :: "pyval \<Rightarrow> exc" where
  "unhashable k = TypeError (''unhashable type: '' @ [CHR 0x27] @ py_type_name k @ [CHR 0x27])"

text \<open>
  \<open>dict_set d k v\<close> is \<^verbatim>\<open>d[k] = v\<close> for a hashable key: the value of an equal key is
  replaced where it stands (the stored key object stays), a new key goes to the end.
\<close>

fun dict_set :: "(pyval \<times> pyval) list \<Rightarrow> pyval \<Rightarrow> pyval \<Rightarrow> (pyval \<times> pyval) list" where
  "dict_set [] k v = [(k, v)]"
| "dict_set ((k', v') # kvs) k v =
     (if py_eq k' k then (k', v) # kvs else (k', v') # dict_set kvs k v)"

text \<open>\<open>dict_get d k\<close> is \<^verbatim>\<open>d.get(k)\<close>.\<close>

fun dict_get :: "(pyval \<times> pyval) list \<Rightarrow> pyval \<Rightarrow> pyval option" where
  "dict_get [] k = None"
| "dict_get ((k', v') # kvs) k = (if py_eq k' k then Some v' else dict_get kvs k)"

section \<open>The decoder\<close>

subsection \<open>Constants of \<^verbatim>\<open>ThriftDecoder\<close>\<close>

definition T_STOP :: int where "T_STOP = 0"
definition T_VOID :: int where "T_VOID = 1"
definition T_BOOL :: int where "T_BOOL = 2"
definition T_BYTE :: int where "T_BYTE = 3"
definition T_DOUBLE :: int where "T_DOUBLE = 4"
definition T_I16 :: int where "T_I16 = 6"
definition T_I32 :: int where "T_I32 = 8"
definition T_I64 :: int where "T_I64 = 10"
definition T_STRING :: int where "T_STRING = 11"
definition T_STRUCT :: int where "T_STRUCT = 12"
definition T_MAP :: int where "T_MAP = 13"
definition T_SET :: int where "T_SET = 14"
definition T_LIST :: int where "T_LIST = 15"
definition T_UTF8 :: int where "T_UTF8 = 16"
definition T_UTF16 :: int where "T_UTF16 = 17"

lemmas T_defs = T_STOP_def T_VOID_def T_BOOL_def T_BYTE_def T_DOUBLE_def T_I16_def T_I32_def
  T_I64_def T_STRING_def T_STRUCT_def T_MAP_def T_SET_def T_LIST_def T_UTF8_def T_UTF16_def

definition TYPE_NAMES :: "(int \<times> string) list" where
  "TYPE_NAMES =
     [(0, ''STOP''), (1, ''VOID''), (2, ''BOOL''), (3, ''BYTE''), (4, ''DOUBLE''),
      (6, ''I16''), (8, ''I32''), (10, ''I64''), (11, ''STRING''), (12, ''STRUCT''),
      (13, ''MAP''), (14, ''SET''), (15, ''LIST''), (16, ''UTF8''), (17, ''UTF16'')]"

definition MESSAGE_TYPE_CALL :: int where "MESSAGE_TYPE_CALL = 1"
definition MESSAGE_TYPE_REPLY :: int where "MESSAGE_TYPE_REPLY = 2"
definition MESSAGE_TYPE_EXCEPTION :: int where "MESSAGE_TYPE_EXCEPTION = 3"
definition MESSAGE_TYPE_ONEWAY :: int where "MESSAGE_TYPE_ONEWAY = 4"

definition MESSAGE_TYPE_NAMES :: "(int \<times> string) list" where
  "MESSAGE_TYPE_NAMES = [(1, ''CALL''), (2, ''REPLY''), (3, ''EXCEPTION''), (4, ''ONEWAY'')]"

definition KNOWN_METHODS :: "string list" where
  "KNOWN_METHODS =
     [''OpenSession'', ''CloseSession'', ''ExecuteStatement'', ''GetOperationStatus'',
      ''FetchResults'', ''CloseOperation'', ''CancelOperation'', ''GetResultSetMetadata'',
      ''GetSchemas'', ''GetTables'', ''GetColumns'', ''GetCatalogs'', ''GetTableTypes'',
      ''GetTypeInfo'']"

definition METHOD_TO_REQUEST_TYPE :: "(string \<times> string) list" where
  "METHOD_TO_REQUEST_TYPE = map (\<lambda>m. (m, CHR ''T'' # m @ ''Req'')) KNOWN_METHODS"

definition METHOD_TO_RESPONSE_TYPE :: "(string \<times> string) list" where
  "METHOD_TO_RESPONSE_TYPE = map (\<lambda>m. (m, CHR ''T'' # m @ ''Resp'')) KNOWN_METHODS"

subsection \<open>The byte cursor\<close>

text \<open>\<^verbatim>\<open>ThriftDecoder(data)\<close>.\<close>

definition new_decoder :: "byte list \<Rightarrow> decoder" where
  "new_decoder data =
     \<lparr>stream = data, pos = 0, data_len = int (length data), method_name = None,
      message_type = None, field_name_map = []\<rparr>"

text \<open>
  \<^verbatim>\<open>self.stream.read(n)\<close> returns the next \<open>n\<close> bytes, or as many as are left, and
  moves the stream past what it returned.
\<close>

definition stream_read :: "nat \<Rightarrow> decoder \<Rightarrow> byte list \<times> decoder" where
  "stream_read n s = (take n (stream s), s\<lparr>stream := drop n (stream s)\<rparr>)"

definition eof_at :: "decoder \<Rightarrow> exc" where
  "eof_at s = EOFError (''Unexpected end of stream at position '' @ str_int (pos s))"

definition read_byte :: "decoder \<Rightarrow> int res" where
  "read_byte s =
     (case stream_read 1 s of (b, s1) \<Rightarrow>
        if length b = 0 then (Inl (eof_at s1), s1)
        else (Inr (be_sint b), s1\<lparr>pos := pos s1 + 1\<rparr>))"

definition read_i16 :: "decoder \<Rightarrow> int res" where
  "read_i16 s =
     (case stream_read 2 s of (data, s1) \<Rightarrow>
        if length data < 2 then (Inl (eof_at s1), s1)
        else (Inr (be_sint data), s1\<lparr>pos := pos s1 + 2\<rparr>))"

definition read_i32 :: "decoder \<Rightarrow> int res" where
  "read_i32 s =
     (case stream_read 4 s of (data, s1) \<Rightarrow>
        if length data < 4 then (Inl (eof_at s1), s1)
        else (Inr (be_sint data), s1\<lparr>pos := pos s1 + 4\<rparr>))"

definition read_i64 :: "decoder \<Rightarrow> int res" where
  "read_i64 s =
     (case stream_read 8 s of (data, s1) \<Rightarrow>
        if length data < 8 then (Inl (eof_at s1), s1)
        else (Inr (be_sint data), s1\<lparr>pos := pos s1 + 8\<rparr>))"

definition read_double :: "decoder \<Rightarrow> 64 word res" where
  "read_double s =
     (case stream_read 8 s of (data, s1) \<Rightarrow>
        if length data < 8 then (Inl (eof_at s1), s1)
        else (Inr (word_of_int (be_uint data)), s1\<lparr>pos := pos s1 + 8\<rparr>))"

definition binary_preview :: "byte list \<Rightarrow> string" where
  "binary_preview data =
     (let preview = bytes_hex (take 50 data);
          preview = (if length data > 50 then preview @ ''...'' else preview)
      in ''<binary:'' @ preview @ ''>'')"

definition read_string :: "decoder \<Rightarrow> string res" where
  "read_string s =
     (case read_i32 s of
        (Inl e, s1) \<Rightarrow> (Inl e, s1)
      | (Inr length', s1) \<Rightarrow>
          if length' < 0 then
            (Inl (ValueError (''Invalid string length: '' @ str_int length')), s1)
          else if length' > 10 * 1024 * 1024 then
            (Inl (ValueError (''String length too large: '' @ str_int length')), s1)
          else
            (case stream_read (nat length') s1 of (data, s2) \<Rightarrow>
               if int (length data) < length' then
                 (Inl (EOFError (''Unexpected end of stream while reading string at position ''
                                 @ str_int (pos s2))), s2)
               else
                 (let s3 = s2\<lparr>pos := pos s2 + length'\<rparr> in
                  case utf8_decode data of
                    Some text \<Rightarrow> (Inr text, s3)
                  | None \<Rightarrow> (Inr (binary_preview data), s3))))"

subsection \<open>The message envelope\<close>

definition read_message_begin :: "decoder \<Rightarrow> (string \<times> int \<times> int) res" where
  "read_message_begin s =
     (case read_i32 s of
        (Inl e, s1) \<Rightarrow> (Inl e, s1)
      | (Inr size', s1) \<Rightarrow>
          (case
             (if size' < 0 then
                (let version = size' AND 0xFFFF0000 in
                 if version \<noteq> 0x80010000 then
                   (Inl (ValueError (''Unsupported Thrift version: '' @ py_hex version)), s1)
                 else
                   (let message_type' = size' AND 0x000000FF in
                    case read_string s1 of
                      (Inl e, s2) \<Rightarrow> (Inl e, s2)
                    | (Inr method_name', s2) \<Rightarrow> (Inr (method_name', message_type'), s2)))
              else
                (case stream_read (nat size') s1 of (method_name_bytes, s2) \<Rightarrow>
                   if int (length method_name_bytes) < size' then
                     (Inl (EOFError ''Unexpected end of stream while reading method name''), s2)
                   else
                     (let s3 = s2\<lparr>pos := pos s2 + size'\<rparr> in
                      case utf8_decode method_name_bytes of
                        None \<Rightarrow>
                          (Inl (UnicodeDecodeError ''utf-8 codec cannot decode the method name''),
                           s3)
                      | Some method_name' \<Rightarrow>
                          (case read_byte s3 of
                             (Inl e, s4) \<Rightarrow> (Inl e, s4)
                           | (Inr message_type', s4) \<Rightarrow> (Inr (method_name', message_type'), s4)))))
           of
             (Inl e, s5) \<Rightarrow> (Inl e, s5)
           | (Inr (method_name', message_type'), s5) \<Rightarrow>
               (case read_i32 s5 of
                  (Inl e, s6) \<Rightarrow> (Inl e, s6)
                | (Inr sequence_id, s6) \<Rightarrow> (Inr (method_name', message_type', sequence_id), s6))))"

subsection \<open>Skipping a value\<close>

definition discard :: "'a res \<Rightarrow> unit res" where
  "discard r = (case r of (Inl e, s) \<Rightarrow> (Inl e, s) | (Inr v, s) \<Rightarrow> (Inr (), s))"

function (domintros) skip_field :: "int \<Rightarrow> int \<Rightarrow> decoder \<Rightarrow> unit res"
  and skip_struct :: "int \<Rightarrow> decoder \<Rightarrow> unit res"
  and skip_pairs :: "nat \<Rightarrow> int \<Rightarrow> int \<Rightarrow> int \<Rightarrow> decoder \<Rightarrow> unit res"
  and skip_elems :: "nat \<Rightarrow> int \<Rightarrow> int \<Rightarrow> decoder \<Rightarrow> unit res"
where
  "skip_field field_type max_depth s =
     (if max_depth \<le> 0 then
        (Inl (ValueError ''Maximum recursion depth exceeded while skipping field''), s)
      else if field_type = T_BOOL \<or> field_type = T_BYTE then discard (read_byte s)
      else if field_type = T_I16 then discard (read_i16 s)
      else if field_type = T_I32 then discard (read_i32 s)
      else if field_type = T_I64 then discard (read_i64 s)
      else if field_type = T_DOUBLE then discard (read_double s)
      else if field_type = T_STRING then discard (read_string s)
      else if field_type = T_STRUCT then skip_struct (max_depth - 1) s
      else if field_type = T_MAP then
        (case read_byte s of
           (Inl e, s1) \<Rightarrow> (Inl e, s1)
         | (Inr key_type, s1) \<Rightarrow>
        (case read_byte s1 of
           (Inl e, s2) \<Rightarrow> (Inl e, s2)
         | (Inr val_type, s2) \<Rightarrow>
        (case read_i32 s2 of
           (Inl e, s3) \<Rightarrow> (Inl e, s3)
         | (Inr size', s3) \<Rightarrow> skip_pairs (nat size') key_type val_type (max_depth - 1) s3)))
      else if field_type = T_SET \<or> field_type = T_LIST then
        (case read_byte s of
           (Inl e, s1) \<Rightarrow> (Inl e, s1)
         | (Inr elem_type, s1) \<Rightarrow>
        (case read_i32 s1 of
           (Inl e, s2) \<Rightarrow> (Inl e, s2)
         | (Inr size', s2) \<Rightarrow> skip_elems (nat size') elem_type (max_depth - 1) s2))
      else (Inr (), s))"
| "skip_struct max_depth s =
     (case read_byte s of
        (Inl e, s1) \<Rightarrow> (Inl e, s1)
      | (Inr field_type, s1) \<Rightarrow>
          if field_type = T_STOP then (Inr (), s1)
          else
            (case read_i16 s1 of
               (Inl e, s2) \<Rightarrow> (Inl e, s2)
             | (Inr field_id, s2) \<Rightarrow>
            (case skip_field field_type max_depth s2 of
               (Inl e, s3) \<Rightarrow> (Inl e, s3)
             | (Inr u, s3) \<Rightarrow> skip_struct max_depth s3)))"
| "skip_pairs 0 key_type val_type max_depth s = (Inr (), s)"
| "skip_pairs (Suc n) key_type val_type max_depth s =
     (case skip_field key_type max_depth s of
        (Inl e, s1) \<Rightarrow> (Inl e, s1)
      | (Inr u, s1) \<Rightarrow>
     (case skip_field val_type max_depth s1 of
        (Inl e, s2) \<Rightarrow> (Inl e, s2)
      | (Inr u, s2) \<Rightarrow> skip_pairs n key_type val_type max_depth s2))"
| "skip_elems 0 elem_type max_depth s = (Inr (), s)"
| "skip_elems (Suc n) elem_type max_depth s =
     (case skip_field elem_type max_depth s of
        (Inl e, s1) \<Rightarrow> (Inl e, s1)
      | (Inr u, s1) \<Rightarrow> skip_elems n elem_type max_depth s1)"
  by pat_completeness auto

definition known_tags :: "int set" where
  "known_tags = {T_BOOL, T_BYTE, T_I16, T_I32, T_I64, T_DOUBLE, T_STRING, T_STRUCT, T_MAP,
                 T_SET, T_LIST}"

lemma tag_disj:
  "t = T_BOOL \<or> t = T_BYTE \<or> t = T_I16 \<or> t = T_I32 \<or> t = T_I64 \<or> t = T_DOUBLE \<or> t = T_STRING
   \<or> t = T_STRUCT \<or> t = T_MAP \<or> t = T_SET \<or> t = T_LIST \<or> t \<notin> known_tags"
  by (auto simp: known_tags_def)

lemma read_byte_le: "read_byte s = (r, s1) \<Longrightarrow> length (stream s1) \<le> length (stream s)"
  by (auto simp: read_byte_def stream_read_def split: if_splits)

lemma read_byte_less: "read_byte s = (Inr v, s1) \<Longrightarrow> length (stream s1) < length (stream s)"
  by (auto simp: read_byte_def stream_read_def split: if_splits)

lemma read_i16_le: "read_i16 s = (r, s1) \<Longrightarrow> length (stream s1) \<le> length (stream s)"
  by (auto simp: read_i16_def stream_read_def split: if_splits)

lemma read_i32_le: "read_i32 s = (r, s1) \<Longrightarrow> length (stream s1) \<le> length (stream s)"
  by (auto simp: read_i32_def stream_read_def split: if_splits)

lemma read_i64_le: "read_i64 s = (r, s1) \<Longrightarrow> length (stream s1) \<le> length (stream s)"
  by (auto simp: read_i64_def stream_read_def split: if_splits)

lemma read_double_le: "read_double s = (r, s1) \<Longrightarrow> length (stream s1) \<le> length (stream s)"
  by (auto simp: read_double_def stream_read_def split: if_splits)

lemma read_string_le: "read_string s = (r, s1) \<Longrightarrow> length (stream s1) \<le> length (stream s)"
  by (auto simp: read_string_def stream_read_def Let_def dest!: read_i32_le
      split: if_splits prod.splits sum.splits option.splits)

lemmas prim_le = read_byte_le read_i16_le read_i32_le read_i64_le read_double_le read_string_le

lemma skip_le_dom:
  "skip_field_skip_struct_skip_pairs_skip_elems_dom (Inl (Inl (t, d, s))) \<Longrightarrow>
     length (stream (snd (skip_field t d s))) \<le> length (stream s)"
  "skip_field_skip_struct_skip_pairs_skip_elems_dom (Inl (Inr (d, s))) \<Longrightarrow>
     length (stream (snd (skip_struct d s))) \<le> length (stream s)"
  "skip_field_skip_struct_skip_pairs_skip_elems_dom (Inr (Inl (n, kt, vt, d, s))) \<Longrightarrow>
     length (stream (snd (skip_pairs n kt vt d s))) \<le> length (stream s)"
  "skip_field_skip_struct_skip_pairs_skip_elems_dom (Inr (Inr (n, t, d, s))) \<Longrightarrow>
     length (stream (snd (skip_elems n t d s))) \<le> length (stream s)"
proof (induct rule: skip_field_skip_struct_skip_pairs_skip_elems.pinduct)
  case (1 field_type max_depth s)
  from tag_disj[of field_type] 1 show ?case
    apply -
    apply (simp only: skip_field.psimps)
    apply (atomize (full))
    apply (intro impI)
    apply (elim disjE)
    apply (simp_all add: T_defs known_tags_def discard_def split: prod.split sum.split)
    apply safe
    apply simp_all
    apply (auto dest!: prim_le)
    done
next
  case (2 max_depth s)
  then show ?case
    apply -
    apply (simp only: skip_struct.psimps)
    apply (atomize (full))
    apply (simp split: prod.split sum.split)
    apply safe
    apply simp_all
    apply (auto dest!: prim_le)
    done
next
  case (3 key_type val_type max_depth s)
  then show ?case by (simp add: skip_pairs.psimps)
next
  case (4 n key_type val_type max_depth s)
  then show ?case
    apply -
    apply (simp only: skip_pairs.psimps)
    apply (atomize (full))
    apply (auto split: prod.split sum.split)
    done
next
  case (5 elem_type max_depth s)
  then show ?case by (simp add: skip_elems.psimps)
next
  case (6 n elem_type max_depth s)
  then show ?case
    apply -
    apply (simp only: skip_elems.psimps)
    apply (atomize (full))
    apply (auto split: prod.split sum.split)
    done
qed

lemma skip_total: "All skip_field_skip_struct_skip_pairs_skip_elems_dom"
  apply (relation "inv_image (less_than <*lex*> less_than <*lex*> less_than) (\<lambda>x. case x of
       Inl (Inl (t, d, s)) \<Rightarrow> (nat d, 0::nat, 0::nat)
     | Inl (Inr (d, s)) \<Rightarrow> (nat d, 1, length (stream s))
     | Inr (Inl (n, kt, vt, d, s)) \<Rightarrow> (nat d, 1, n)
     | Inr (Inr (n, t, d, s)) \<Rightarrow> (nat d, 1, n))")
  apply (auto dest!: skip_le_dom(1) prim_le[OF sym] read_byte_less[OF sym])
  apply (metis snd_conv order_le_less_trans)
  done

termination skip_field
  by (rule skip_total)

lemma skip_field_le: "length (stream (snd (skip_field t d s))) \<le> length (stream s)"
  using skip_le_dom(1) skip_total by blast

declare skip_field.simps [simp del] skip_struct.simps [simp del]

subsection \<open>Decoding a value\<close>

text \<open>\<^verbatim>\<open>self.TYPE_NAMES.get(field_type, f"type_{field_type}")\<close>.\<close>

definition type_name_of :: "int \<Rightarrow> string" where
  "type_name_of field_type =
     (case map_of TYPE_NAMES field_type of
        Some n \<Rightarrow> n
      | None \<Rightarrow> ''type_'' @ str_int field_type)"

text \<open>
  The key of a field: the name \<^verbatim>\<open>self.field_name_map.get(field_id)\<close> if there is one
  and it is not empty, \<^verbatim>\<open>f"field_{field_id}"\<close> otherwise.
\<close>

definition field_key_of :: "(int \<times> string) list \<Rightarrow> int \<Rightarrow> string" where
  "field_key_of m field_id =
     (case map_of m field_id of
        Some field_name \<Rightarrow> if field_name \<noteq> [] then field_name else ''field_'' @ str_int field_id
      | None \<Rightarrow> ''field_'' @ str_int field_id)"

definition value_entry :: "string \<Rightarrow> pyval \<Rightarrow> int \<Rightarrow> pyval" where
  "value_entry type_name v field_id =
     PDict [(PStr ''type'', PStr type_name), (PStr ''value'', v), (PStr ''field_id'', PInt field_id)]"

definition error_entry :: "string \<Rightarrow> exc \<Rightarrow> int \<Rightarrow> pyval" where
  "error_entry type_name e field_id =
     PDict [(PStr ''type'', PStr type_name), (PStr ''error'', PStr (exc_str e)),
            (PStr ''field_id'', PInt field_id)]"

text \<open>
  The two outer handlers of the loop of \<^verbatim>\<open>read_struct\<close>: \<^verbatim>\<open>except EOFError: break\<close>
  and \<^verbatim>\<open>except Exception as e: fields["_parse_error"] = str(e); break\<close>.
\<close>

definition outer_except :: "exc \<Rightarrow> (pyval \<times> pyval) list \<Rightarrow> (pyval \<times> pyval) list" where
  "outer_except e flds =
     (if is_EOFError e then flds
      else dict_set flds (PStr ''_parse_error'') (PStr (exc_str e)))"

function (domintros) read_field_value :: "int \<Rightarrow> int \<Rightarrow> decoder \<Rightarrow> pyval res"
  and read_map :: "int \<Rightarrow> decoder \<Rightarrow> pyval res"
  and read_map_loop ::
    "nat \<Rightarrow> int \<Rightarrow> int \<Rightarrow> int \<Rightarrow> (pyval \<times> pyval) list \<Rightarrow> decoder \<Rightarrow> pyval res"
  and read_set :: "int \<Rightarrow> decoder \<Rightarrow> pyval res"
  and read_list :: "int \<Rightarrow> decoder \<Rightarrow> pyval res"
  and read_elems :: "nat \<Rightarrow> int \<Rightarrow> int \<Rightarrow> pyval list \<Rightarrow> decoder \<Rightarrow> pyval res"
  and read_struct :: "int \<Rightarrow> decoder \<Rightarrow> pyval \<times> decoder"
  and read_struct_loop ::
    "int \<Rightarrow> (pyval \<times> pyval) list \<Rightarrow> decoder \<Rightarrow> (pyval \<times> pyval) list \<times> decoder"
where
  "read_field_value field_type max_depth s =
     (if max_depth \<le> 0 then (Inr (PStr ''<max_depth_exceeded>''), s)
      else if field_type = T_BOOL then
        (case read_byte s of (Inl e, s1) \<Rightarrow> (Inl e, s1) | (Inr b, s1) \<Rightarrow> (Inr (PBool (b \<noteq> 0)), s1))
      else if field_type = T_BYTE then
        (case read_byte s of (Inl e, s1) \<Rightarrow> (Inl e, s1) | (Inr b, s1) \<Rightarrow> (Inr (PInt b), s1))
      else if field_type = T_I16 then
        (case read_i16 s of (Inl e, s1) \<Rightarrow> (Inl e, s1) | (Inr i, s1) \<Rightarrow> (Inr (PInt i), s1))
      else if field_type = T_I32 then
        (case read_i32 s of (Inl e, s1) \<Rightarrow> (Inl e, s1) | (Inr i, s1) \<Rightarrow> (Inr (PInt i), s1))
      else if field_type = T_I64 then
        (case read_i64 s of (Inl e, s1) \<Rightarrow> (Inl e, s1) | (Inr i, s1) \<Rightarrow> (Inr (PInt i), s1))
      else if field_type = T_DOUBLE then
        (case read_double s of (Inl e, s1) \<Rightarrow> (Inl e, s1) | (Inr w, s1) \<Rightarrow> (Inr (PFloat w), s1))
      else if field_type = T_STRING then
        (case read_string s of (Inl e, s1) \<Rightarrow> (Inl e, s1) | (Inr t, s1) \<Rightarrow> (Inr (PStr t), s1))
      else if field_type = T_STRUCT then
        (case read_struct (max_depth - 1) s of (v, s1) \<Rightarrow> (Inr v, s1))
      else if field_type = T_MAP then read_map (max_depth - 1) s
      else if field_type = T_SET then read_set (max_depth - 1) s
      else if field_type = T_LIST then read_list (max_depth - 1) s
      else (Inr (PStr (''<unknown_type:'' @ str_int field_type @ ''>'')), s))"
| "read_map max_depth s =
     (case read_byte s of
        (Inl e, s1) \<Rightarrow> (Inl e, s1)
      | (Inr key_type, s1) \<Rightarrow>
     (case read_byte s1 of
        (Inl e, s2) \<Rightarrow> (Inl e, s2)
      | (Inr val_type, s2) \<Rightarrow>
     (case read_i32 s2 of
        (Inl e, s3) \<Rightarrow> (Inl e, s3)
      | (Inr size', s3) \<Rightarrow>
          if size' > 10000 then
            (Inr (PDict [(PStr ''<large_map>'', PStr (str_int size' @ '' entries''))]), s3)
          else read_map_loop (nat size') key_type val_type max_depth [] s3)))"
| "read_map_loop 0 key_type val_type max_depth result s = (Inr (PDict result), s)"
| "read_map_loop (Suc n) key_type val_type max_depth result s =
     (case read_field_value key_type max_depth s of
        (Inl e, s1) \<Rightarrow> (Inl e, s1)
      | (Inr key, s1) \<Rightarrow>
     (case read_field_value val_type max_depth s1 of
        (Inl e, s2) \<Rightarrow> (Inl e, s2)
      | (Inr val, s2) \<Rightarrow>
          if hashable key then
            read_map_loop n key_type val_type max_depth (dict_set result key val) s2
          else (Inl (unhashable key), s2)))"
| "read_set max_depth s =
     (case read_byte s of
        (Inl e, s1) \<Rightarrow> (Inl e, s1)
      | (Inr elem_type, s1) \<Rightarrow>
     (case read_i32 s1 of
        (Inl e, s2) \<Rightarrow> (Inl e, s2)
      | (Inr size', s2) \<Rightarrow>
          if size' > 10000 then
            (Inr (PList [PStr (''<large_set: '' @ str_int size' @ '' entries>'')]), s2)
          else read_elems (nat size') elem_type max_depth [] s2))"
| "read_list max_depth s =
     (case read_byte s of
        (Inl e, s1) \<Rightarrow> (Inl e, s1)
      | (Inr elem_type, s1) \<Rightarrow>
     (case read_i32 s1 of
        (Inl e, s2) \<Rightarrow> (Inl e, s2)
      | (Inr size', s2) \<Rightarrow>
          if size' > 10000 then
            (Inr (PList [PStr (''<large_list: '' @ str_int size' @ '' entries>'')]), s2)
          else read_elems (nat size') elem_type max_depth [] s2))"
| "read_elems 0 elem_type max_depth result s = (Inr (PList result), s)"
| "read_elems (Suc n) elem_type max_depth result s =
     (case read_field_value elem_type max_depth s of
        (Inl e, s1) \<Rightarrow> (Inl e, s1)
      | (Inr v, s1) \<Rightarrow> read_elems n elem_type max_depth (result @ [v]) s1)"
| "read_struct max_depth s =
     (if max_depth \<le> 0 then (PDict [(PStr ''error'', PStr ''max_depth_exceeded'')], s)
      else (case read_struct_loop max_depth [] s of (flds, s1) \<Rightarrow> (PDict flds, s1)))"
| "read_struct_loop max_depth flds s =
     (case read_byte s of
        (Inl e, s1) \<Rightarrow> (outer_except e flds, s1)
      | (Inr field_type, s1) \<Rightarrow>
          if field_type = T_STOP then (flds, s1)
          else
            (case read_i16 s1 of
               (Inl e, s2) \<Rightarrow> (outer_except e flds, s2)
             | (Inr field_id, s2) \<Rightarrow>
                 (let type_name = type_name_of field_type;
                      field_key = PStr (field_key_of (field_name_map s2) field_id)
                  in case read_field_value field_type max_depth s2 of
                       (Inr v, s3) \<Rightarrow>
                         read_struct_loop max_depth
                           (dict_set flds field_key (value_entry type_name v field_id)) s3
                     | (Inl e, s3) \<Rightarrow>
                         (let flds' = dict_set flds field_key (error_entry type_name e field_id)
                          in case skip_field field_type max_depth s3 of
                               (Inr u, s4) \<Rightarrow> read_struct_loop max_depth flds' s4
                             | (Inl e', s4) \<Rightarrow> (flds', s4)))))"
  by pat_completeness auto


abbreviation read_dom where
  "read_dom \<equiv>
     read_field_value_read_map_read_map_loop_read_set_read_list_read_elems_read_struct_read_struct_loop_dom"

lemma skip_field_le':
  "skip_field t d s = (r, s1) \<Longrightarrow> length (stream s1) \<le> length (stream s)"
  using skip_field_le[of t d s] by simp

lemma read_le_dom:
  "read_dom (Inl (Inl (Inl (t, d, s)))) \<Longrightarrow>
     length (stream (snd (read_field_value t d s))) \<le> length (stream s)"
  "read_dom (Inl (Inl (Inr (d, s)))) \<Longrightarrow>
     length (stream (snd (read_map d s))) \<le> length (stream s)"
  "read_dom (Inl (Inr (Inl (n, kt, vt, d, res, s)))) \<Longrightarrow>
     length (stream (snd (read_map_loop n kt vt d res s))) \<le> length (stream s)"
  "read_dom (Inl (Inr (Inr (d, s)))) \<Longrightarrow>
     length (stream (snd (read_set d s))) \<le> length (stream s)"
  "read_dom (Inr (Inl (Inl (d, s)))) \<Longrightarrow>
     length (stream (snd (read_list d s))) \<le> length (stream s)"
  "read_dom (Inr (Inl (Inr (n, t, d, acc, s)))) \<Longrightarrow>
     length (stream (snd (read_elems n t d acc s))) \<le> length (stream s)"
  "read_dom (Inr (Inr (Inl (d, s)))) \<Longrightarrow>
     length (stream (snd (read_struct d s))) \<le> length (stream s)"
  "read_dom (Inr (Inr (Inr (d, flds, s)))) \<Longrightarrow>
     length (stream (snd (read_struct_loop d flds s))) \<le> length (stream s)"
proof (induct rule:
    read_field_value_read_map_read_map_loop_read_set_read_list_read_elems_read_struct_read_struct_loop.pinduct)
  case (1 field_type max_depth s)
  from tag_disj[of field_type] 1 show ?case
    apply -
    apply (simp only: read_field_value.psimps)
    apply (atomize (full))
    apply (intro impI)
    apply (elim disjE)
    apply (simp_all add: T_defs known_tags_def split: prod.split sum.split)
    apply (safe?)
    apply (simp_all?)
    apply ((auto dest!: prim_le)?)
    done
next
  case (2 max_depth s)
  then show ?case
    apply -
    apply (simp only: read_map.psimps)
    apply (atomize (full))
    apply (simp split: prod.split sum.split)
    apply (safe?)
    apply (simp_all?)
    apply ((auto dest!: prim_le)?)
    done
next
  case (3 key_type val_type max_depth result s)
  then show ?case by (simp add: read_map_loop.psimps)
next
  case (4 n key_type val_type max_depth result s)
  then show ?case
    apply -
    apply (simp only: read_map_loop.psimps)
    apply (atomize (full))
    apply (simp split: prod.split sum.split)
    apply (safe?)
    apply (simp_all?)
    done
next
  case (5 max_depth s)
  then show ?case
    apply -
    apply (simp only: read_set.psimps)
    apply (atomize (full))
    apply (simp split: prod.split sum.split)
    apply (safe?)
    apply (simp_all?)
    apply ((auto dest!: prim_le)?)
    done
next
  case (6 max_depth s)
  then show ?case
    apply -
    apply (simp only: read_list.psimps)
    apply (atomize (full))
    apply (simp split: prod.split sum.split)
    apply (safe?)
    apply (simp_all?)
    apply ((auto dest!: prim_le)?)
    done
next
  case (7 elem_type max_depth result s)
  then show ?case by (simp add: read_elems.psimps)
next
  case (8 n elem_type max_depth result s)
  then show ?case
    apply -
    apply (simp only: read_elems.psimps)
    apply (atomize (full))
    apply (simp split: prod.split sum.split)
    apply (safe?)
    apply (simp_all?)
    done
next
  case (9 max_depth s)
  then show ?case
    apply -
    apply (simp only: read_struct.psimps)
    apply (atomize (full))
    apply (simp split: prod.split sum.split)
    apply (safe?)
    apply (simp_all?)
    done
next
  case (10 max_depth flds s)
  then show ?case
    apply -
    apply (simp only: read_struct_loop.psimps)
    apply (atomize (full))
    apply (simp add: Let_def split: prod.split sum.split)
    apply (safe?)
    apply (simp_all?)
    apply (auto dest!: prim_le skip_field_le')
    done
qed

lemma read_total: "All read_dom"
  apply (relation "inv_image (less_than <*lex*> less_than <*lex*> less_than) (\<lambda>x. case x of
       Inl (Inl (Inl (t, d, s))) \<Rightarrow> (nat d, 0::nat, 0::nat)
     | Inl (Inl (Inr (d, s))) \<Rightarrow> (nat d, 2, 0)
     | Inl (Inr (Inl (n, kt, vt, d, res, s))) \<Rightarrow> (nat d, 1, n)
     | Inl (Inr (Inr (d, s))) \<Rightarrow> (nat d, 2, 0)
     | Inr (Inl (Inl (d, s))) \<Rightarrow> (nat d, 2, 0)
     | Inr (Inl (Inr (n, t, d, acc, s))) \<Rightarrow> (nat d, 1, n)
     | Inr (Inr (Inl (d, s))) \<Rightarrow> (nat d, 2, 0)
     | Inr (Inr (Inr (d, flds, s))) \<Rightarrow> (nat d, 1, length (stream s)))")
  apply (auto dest!: read_le_dom(1) prim_le[OF sym] read_byte_less[OF sym] skip_field_le'[OF sym])
   apply (metis snd_conv order_le_less_trans order_trans)+
  done

termination read_field_value
  by (rule read_total)

declare read_field_value.simps [simp del] read_map.simps [simp del] read_set.simps [simp del]
  read_list.simps [simp del] read_struct.simps [simp del] read_struct_loop.simps [simp del]

subsection \<open>Field names\<close>

text \<open>
  The generated Thrift types come from a package outside this repository. Its import
  may fail (\<^verbatim>\<open>THRIFT_TYPES_AVAILABLE = False\<close>); when it succeeds, the module gives for
  some struct type names a \<^verbatim>\<open>thrift_spec\<close>: a tuple whose entries are \<^verbatim>\<open>None\<close> or a
  tuple \<^verbatim>\<open>(field_id, type, name, ...)\<close>.
\<close>

type_synonym field_spec = "int \<times> int \<times> string"
type_synonym thrift_module = "string \<Rightarrow> field_spec option list option"

definition build_field_name_map ::
    "thrift_module option \<Rightarrow> string \<Rightarrow> int \<Rightarrow> (int \<times> string) list" where
  "build_field_name_map thrift_types method_name' message_type' =
     (case thrift_types of
        None \<Rightarrow> []
      | Some types \<Rightarrow>
          if method_name' = [] then []
          else
            (case (if message_type' = MESSAGE_TYPE_CALL then
                     map_of METHOD_TO_REQUEST_TYPE method_name'
                   else if message_type' = MESSAGE_TYPE_REPLY then
                     map_of METHOD_TO_RESPONSE_TYPE method_name'
                   else None) of
               None \<Rightarrow> []
             | Some struct_type_name \<Rightarrow>
                 if struct_type_name = [] then []
                 else
                   (case types struct_type_name of
                      None \<Rightarrow> []
                    | Some thrift_spec \<Rightarrow>
                        foldl (\<lambda>field_map field_spec.
                                 case field_spec of
                                   None \<Rightarrow> field_map
                                 | Some (actual_field_id, ttype, field_name) \<Rightarrow>
                                     AList.update actual_field_id field_name field_map)
                          [] thrift_spec)))"

subsection \<open>A whole message\<close>

definition message_type_str :: "int \<Rightarrow> string" where
  "message_type_str message_type' =
     (case map_of MESSAGE_TYPE_NAMES message_type' of
        Some n \<Rightarrow> n
      | None \<Rightarrow> ''UNKNOWN('' @ str_int message_type' @ '')'')"

definition error_result :: "exc \<Rightarrow> decoder \<Rightarrow> pyval" where
  "error_result e s =
     PDict [(PStr ''error'', PStr (exc_str e)),
            (PStr ''error_type'', PStr (exc_type_name e)),
            (PStr ''bytes_decoded'', PInt (pos s)),
            (PStr ''total_bytes'', PInt (data_len s))]"

definition decode_message :: "thrift_module option \<Rightarrow> decoder \<Rightarrow> pyval \<times> decoder" where
  "decode_message thrift_types s =
     (case read_message_begin s of
        (Inl e, s1) \<Rightarrow> (error_result e s1, s1)
      | (Inr (method_name', message_type', sequence_id), s1) \<Rightarrow>
          (let s2 = s1\<lparr>method_name :=
                         (if method_name s1 = None \<or> method_name s1 = Some []
                          then Some method_name' else method_name s1),
                       message_type := Some message_type',
                       field_name_map :=
                         build_field_name_map thrift_types method_name' message_type'\<rparr>
           in case read_struct 32 s2 of (struct_fields, s3) \<Rightarrow>
             (let result =
                    [(PStr ''method'', PStr method_name'),
                     (PStr ''message_type'', PStr (message_type_str message_type')),
                     (PStr ''sequence_id'', PInt sequence_id),
                     (PStr ''fields'', struct_fields),
                     (PStr ''bytes_decoded'', PInt (pos s3)),
                     (PStr ''total_bytes'', PInt (data_len s3))];
                  result =
                    (if method_name' \<in> set KNOWN_METHODS
                     then dict_set result (PStr ''protocol'') (PStr ''HiveServer2/Databricks'')
                     else result);
                  result =
                    (if thrift_types \<noteq> None \<and> field_name_map s3 \<noteq> [] then
                       (let result = dict_set result (PStr ''field_names_resolved'') (PBool True);
                            result = dict_set result (PStr ''resolved_fields_count'')
                                       (PInt (int (length (field_name_map s3))))
                        in if message_type' = MESSAGE_TYPE_CALL then
                             dict_set result (PStr ''struct_type'') (PStr ''Request'')
                           else if message_type' = MESSAGE_TYPE_REPLY then
                             dict_set result (PStr ''struct_type'') (PStr ''Response'')
                           else result)
                     else dict_set result (PStr ''field_names_resolved'') (PBool False))
              in (PDict result, s3))))"

text \<open>
  \<open>decode_thrift_message\<close> is the entry point. Nothing that \<open>decode_message\<close> calls
  can raise past its handler, so the outer \<^verbatim>\<open>except\<close> of the source has nothing to
  catch and the result is \<^verbatim>\<open>None\<close> or a dictionary.
\<close>

definition decode_thrift_message :: "thrift_module option \<Rightarrow> byte list \<Rightarrow> pyval option" where
  "decode_thrift_message thrift_types data =
     (if data = [] \<or> length data < 4 then None
      else Some (fst (decode_message thrift_types (new_decoder data))))"

subsection \<open>Reporting the fields\<close>

text \<open>
  \<^verbatim>\<open>format_thrift_message\<close> writes one line for each field, in the order of the loop
  \<^verbatim>\<open>for field_name, field_data in sorted(fields.items())\<close>. The keys of a dictionary
  are distinct, so the items are ordered by their keys alone, which are strings.
  \<open>format_field_items\<close> is that sequence of items, \<open>format_field_names\<close> the names on
  the successive lines.
\<close>

fun key_text :: "pyval \<Rightarrow> string" where
  "key_text (PStr k) = k"
| "key_text v = []"

definition format_field_items :: "pyval \<Rightarrow> (pyval \<times> pyval) list" where
  "format_field_items decoded =
     (case decoded of
        PDict kvs \<Rightarrow>
          (case dict_get kvs (PStr ''fields'') of
             Some (PDict flds) \<Rightarrow> sort_key (\<lambda>item. key_text (fst item)) flds
           | _ \<Rightarrow> [])
      | _ \<Rightarrow> [])"

definition format_field_names :: "pyval \<Rightarrow> string list" where
  "format_field_names decoded = map (\<lambda>item. key_text (fst item)) (format_field_items decoded)"

section \<open>Reading from an explicit buffer\<close>

lemma read_byte_Nil:
  "stream s = [] \<Longrightarrow> read_byte s = (Inl (eof_at s), s)"
  by (simp add: read_byte_def stream_read_def eof_at_def)

lemma read_byte_Cons:
  "stream s = b # rest \<Longrightarrow>
   read_byte s = (Inr (be_sint [b]), s\<lparr>stream := rest, pos := pos s + 1\<rparr>)"
  by (simp add: read_byte_def stream_read_def)

lemma read_i16_Cons:
  "stream s = b0 # b1 # rest \<Longrightarrow>
   read_i16 s = (Inr (be_sint [b0, b1]), s\<lparr>stream := rest, pos := pos s + 2\<rparr>)"
  by (simp add: read_i16_def stream_read_def)

lemma read_i32_Cons:
  "stream s = b0 # b1 # b2 # b3 # rest \<Longrightarrow>
   read_i32 s = (Inr (be_sint [b0, b1, b2, b3]), s\<lparr>stream := rest, pos := pos s + 4\<rparr>)"
  by (simp add: read_i32_def stream_read_def)

section \<open>The depth ceiling\<close>

text \<open>
  Claim C8. When the remaining depth is zero (or below), decoding a value of any type
  tag returns the placeholder string at once, and decoding a struct returns the
  placeholder dictionary at once; neither calls anything else, and the decoder after
  the call is the decoder before it: stream and position are unchanged, no byte of the
  nested value is consumed.
\<close>

theorem depth_exhausted_placeholder:
  "max_depth \<le> 0 \<Longrightarrow>
     read_field_value field_type max_depth s = (Inr (PStr ''<max_depth_exceeded>''), s) \<and>
     read_struct max_depth s = (PDict [(PStr ''error'', PStr ''max_depth_exceeded'')], s)"
  by (simp add: read_field_value.simps read_struct.simps)

theorem depth_exhausted_placeholder_witness:
  "(0::int) \<le> 0 \<and>
   read_field_value T_STRUCT 0 (new_decoder [12, 0, 1, 0, 0]) =
     (Inr (PStr ''<max_depth_exceeded>''), new_decoder [12, 0, 1, 0, 0]) \<and>
   read_struct 0 (new_decoder [12, 0, 1, 0, 0]) =
     (PDict [(PStr ''error'', PStr ''max_depth_exceeded'')], new_decoder [12, 0, 1, 0, 0])"
  using depth_exhausted_placeholder [of 0 T_STRUCT "new_decoder [12, 0, 1, 0, 0]"] by simp

section \<open>Strings\<close>

text \<open>
  Claim C6. \<open>read_string\<close> reads a 32-bit length \<open>n\<close> first. A negative \<open>n\<close> and an
  \<open>n\<close> above 10 MiB (10485760) each fail with a \<^verbatim>\<open>ValueError\<close> naming the length.
  Otherwise exactly \<open>n\<close> bytes are consumed and the result is their UTF-8 decoding when
  they are valid UTF-8, and else, without failing, the placeholder
  \<^verbatim>\<open><binary:...>\<close> made of the hex digits of the first 50 bytes, followed by
  \<^verbatim>\<open>...\<close> exactly when there are more than 50 bytes. A buffer that ends before the
  \<open>n\<close> bytes is the truncation failure every read of the cursor has.
\<close>

theorem read_string_cases:
  "stream s = b0 # b1 # b2 # b3 # rest \<Longrightarrow> n = be_sint [b0, b1, b2, b3] \<Longrightarrow>
   read_string s =
     (if n < 0 then
        (Inl (ValueError (''Invalid string length: '' @ str_int n)),
         s\<lparr>stream := rest, pos := pos s + 4\<rparr>)
      else if n > 10485760 then
        (Inl (ValueError (''String length too large: '' @ str_int n)),
         s\<lparr>stream := rest, pos := pos s + 4\<rparr>)
      else if length rest < nat n then
        (Inl (EOFError (''Unexpected end of stream while reading string at position ''
                        @ str_int (pos s + 4))),
         s\<lparr>stream := [], pos := pos s + 4\<rparr>)
      else
        (Inr (if utf8_valid (take (nat n) rest) then bytes_text (take (nat n) rest)
              else ''<binary:'' @ bytes_hex (take 50 (take (nat n) rest))
                   @ (if 50 < nat n then ''...'' else []) @ ''>''),
         s\<lparr>stream := drop (nat n) rest, pos := pos s + 4 + n\<rparr>))"
  by (auto simp: read_string_def read_i32_Cons stream_read_def utf8_decode_def binary_preview_def
      Let_def min_def)

theorem read_string_cases_witness:
  "stream (new_decoder [0, 0, 0, 2, 0xC3, 0x28, 7]) = 0 # 0 # 0 # 2 # [0xC3, 0x28, 7] \<and>
   (2::int) = be_sint [0, 0, 0, 2] \<and>
   read_string (new_decoder [0, 0, 0, 2, 0xC3, 0x28, 7]) =
     (Inr ''<binary:c328>'', (new_decoder [0, 0, 0, 2, 0xC3, 0x28, 7])\<lparr>stream := [7], pos := 6\<rparr>)"
proof -
  have h1: "stream (new_decoder [0, 0, 0, 2, 0xC3, 0x28, 7]) = 0 # 0 # 0 # 2 # [0xC3, 0x28, 7]"
    by (simp add: new_decoder_def)
  have h2: "(2::int) = be_sint [0, 0, 0, 2]"
    by code_simp
  have r: "read_string (new_decoder [0, 0, 0, 2, 0xC3, 0x28, 7]) =
     (Inr ''<binary:c328>'', (new_decoder [0, 0, 0, 2, 0xC3, 0x28, 7])\<lparr>stream := [7], pos := 6\<rparr>)"
    unfolding read_string_cases [OF h1 h2] by code_simp
  from h1 h2 r show ?thesis by blast
qed

section \<open>The message envelope\<close>

lemma read_message_begin_version:
  assumes "stream s = b0 # b1 # b2 # b3 # rest" "size' = be_sint [b0, b1, b2, b3]"
    "size' < 0" "size' AND 0xFFFF0000 \<noteq> 0x80010000"
  shows "read_message_begin s =
     (Inl (ValueError (''Unsupported Thrift version: '' @ py_hex (size' AND 0xFFFF0000))),
      s\<lparr>stream := rest, pos := pos s + 4\<rparr>)"
  using assms by (simp add: read_message_begin_def read_i32_Cons Let_def)

lemma read_message_begin_strict:
  assumes "stream s = b0 # b1 # b2 # b3 # l0 # l1 # l2 # l3 # name_bytes @ q0 # q1 # q2 # q3 # rest"
    "size' = be_sint [b0, b1, b2, b3]" "size' < 0" "size' AND 0xFFFF0000 = 0x80010000"
    "be_sint [l0, l1, l2, l3] = int (length name_bytes)" "length name_bytes \<le> 10485760"
  shows "read_message_begin s =
     (Inr (if utf8_valid name_bytes then bytes_text name_bytes else binary_preview name_bytes,
           size' AND 0x000000FF, be_sint [q0, q1, q2, q3]),
      s\<lparr>stream := rest, pos := pos s + 12 + int (length name_bytes)\<rparr>)"
  using assms
  by (simp add: read_message_begin_def read_string_def read_i32_def stream_read_def
      utf8_decode_def Let_def)

lemma read_message_begin_legacy:
  assumes "stream s = b0 # b1 # b2 # b3 # name_bytes @ k # q0 # q1 # q2 # q3 # rest"
    "be_sint [b0, b1, b2, b3] = int (length name_bytes)" "utf8_valid name_bytes"
  shows "read_message_begin s =
     (Inr (bytes_text name_bytes, be_sint [k], be_sint [q0, q1, q2, q3]),
      s\<lparr>stream := rest, pos := pos s + 9 + int (length name_bytes)\<rparr>)"
  using assms
  by (simp add: read_message_begin_def read_byte_def read_i32_def stream_read_def
      utf8_decode_def Let_def)

text \<open>
  Claim C4. \<open>read_message_begin\<close> reads a 32-bit signed integer \<open>size'\<close> from the first
  four bytes. If it is negative and its masked top 16 bits are not 0x80010000, the
  decode fails with the unsupported-version error. If it is negative and they are, the
  low byte of \<open>size'\<close> is the message kind and the method name follows as a
  length-prefixed string (a four-byte length, then the bytes). If it is not negative, it
  is the length of the method name, whose bytes follow at once with no second length,
  and one byte after them is the message kind. In both modes the four bytes that follow
  are the sequence id, read last, and the result is the triple of method name, message
  kind and sequence id, the cursor standing after the sequence id.
\<close>

theorem read_message_begin_framing:
  assumes "stream s = b0 # b1 # b2 # b3 # rest" and "size' = be_sint [b0, b1, b2, b3]"
  shows
    "(size' < 0 \<and> size' AND 0xFFFF0000 \<noteq> 0x80010000 \<longrightarrow>
        read_message_begin s =
          (Inl (ValueError (''Unsupported Thrift version: '' @ py_hex (size' AND 0xFFFF0000))),
           s\<lparr>stream := rest, pos := pos s + 4\<rparr>)) \<and>
     (size' < 0 \<and> size' AND 0xFFFF0000 = 0x80010000 \<and>
      rest = l0 # l1 # l2 # l3 # name_bytes @ q0 # q1 # q2 # q3 # rest' \<and>
      be_sint [l0, l1, l2, l3] = int (length name_bytes) \<and> length name_bytes \<le> 10485760 \<longrightarrow>
        read_message_begin s =
          (Inr (if utf8_valid name_bytes then bytes_text name_bytes
                else binary_preview name_bytes,
                size' AND 0x000000FF, be_sint [q0, q1, q2, q3]),
           s\<lparr>stream := rest', pos := pos s + 12 + int (length name_bytes)\<rparr>)) \<and>
     (0 \<le> size' \<and> rest = name_bytes @ k # q0 # q1 # q2 # q3 # rest' \<and>
      size' = int (length name_bytes) \<and> utf8_valid name_bytes \<longrightarrow>
        read_message_begin s =
          (Inr (bytes_text name_bytes, be_sint [k], be_sint [q0, q1, q2, q3]),
           s\<lparr>stream := rest', pos := pos s + 9 + int (length name_bytes)\<rparr>))"
proof (intro conjI impI)
  assume "size' < 0 \<and> size' AND 0xFFFF0000 \<noteq> 0x80010000"
  then show "read_message_begin s =
      (Inl (ValueError (''Unsupported Thrift version: '' @ py_hex (size' AND 0xFFFF0000))),
       s\<lparr>stream := rest, pos := pos s + 4\<rparr>)"
    using assms by (intro read_message_begin_version) auto
next
  assume a: "size' < 0 \<and> size' AND 0xFFFF0000 = 0x80010000 \<and>
      rest = l0 # l1 # l2 # l3 # name_bytes @ q0 # q1 # q2 # q3 # rest' \<and>
      be_sint [l0, l1, l2, l3] = int (length name_bytes) \<and> length name_bytes \<le> 10485760"
  show "read_message_begin s =
      (Inr (if utf8_valid name_bytes then bytes_text name_bytes else binary_preview name_bytes,
            size' AND 0x000000FF, be_sint [q0, q1, q2, q3]),
       s\<lparr>stream := rest', pos := pos s + 12 + int (length name_bytes)\<rparr>)"
    by (rule read_message_begin_strict [where ?b0.0 = b0 and ?b1.0 = b1 and ?b2.0 = b2
          and ?b3.0 = b3 and ?l0.0 = l0 and ?l1.0 = l1 and ?l2.0 = l2 and ?l3.0 = l3])
       (use a assms in auto)
next
  assume a: "0 \<le> size' \<and> rest = name_bytes @ k # q0 # q1 # q2 # q3 # rest' \<and>
      size' = int (length name_bytes) \<and> utf8_valid name_bytes"
  show "read_message_begin s =
      (Inr (bytes_text name_bytes, be_sint [k], be_sint [q0, q1, q2, q3]),
       s\<lparr>stream := rest', pos := pos s + 9 + int (length name_bytes)\<rparr>)"
    by (rule read_message_begin_legacy [where ?b0.0 = b0 and ?b1.0 = b1 and ?b2.0 = b2
          and ?b3.0 = b3])
       (use a assms in auto)
qed

theorem read_message_begin_framing_witness:
  "read_message_begin (new_decoder [0x80, 2, 0, 1, 0, 0, 0, 2, 0x41, 0x42, 0, 0, 0, 7, 0]) =
     (Inl (ValueError ''Unsupported Thrift version: 0x80020000''),
      (new_decoder [0x80, 2, 0, 1, 0, 0, 0, 2, 0x41, 0x42, 0, 0, 0, 7, 0])
        \<lparr>stream := [0, 0, 0, 2, 0x41, 0x42, 0, 0, 0, 7, 0], pos := 4\<rparr>) \<and>
   read_message_begin (new_decoder [0x80, 1, 0, 1, 0, 0, 0, 2, 0x41, 0x42, 0, 0, 0, 7, 0]) =
     (Inr (''AB'', 1, 7),
      (new_decoder [0x80, 1, 0, 1, 0, 0, 0, 2, 0x41, 0x42, 0, 0, 0, 7, 0])
        \<lparr>stream := [0], pos := 14\<rparr>) \<and>
   read_message_begin (new_decoder [0, 0, 0, 2, 0x41, 0x42, 1, 0, 0, 0, 7, 0]) =
     (Inr (''AB'', 1, 7),
      (new_decoder [0, 0, 0, 2, 0x41, 0x42, 1, 0, 0, 0, 7, 0])\<lparr>stream := [0], pos := 11\<rparr>)"
proof -
  let ?bad = "new_decoder [0x80, 2, 0, 1, 0, 0, 0, 2, 0x41, 0x42, 0, 0, 0, 7, 0]"
  let ?strict = "new_decoder [0x80, 1, 0, 1, 0, 0, 0, 2, 0x41, 0x42, 0, 0, 0, 7, 0]"
  let ?legacy = "new_decoder [0, 0, 0, 2, 0x41, 0x42, 1, 0, 0, 0, 7, 0]"
  have b1: "stream ?bad = 0x80 # 2 # 0 # 1 # [0, 0, 0, 2, 0x41, 0x42, 0, 0, 0, 7, 0]"
    by (simp add: new_decoder_def)
  have b2: "be_sint [0x80, 2, 0, 1] < 0 \<and> be_sint [0x80, 2, 0, 1] AND 0xFFFF0000 \<noteq> 0x80010000"
    by code_simp
  have rb: "read_message_begin ?bad =
      (Inl (ValueError ''Unsupported Thrift version: 0x80020000''),
       ?bad\<lparr>stream := [0, 0, 0, 2, 0x41, 0x42, 0, 0, 0, 7, 0], pos := 4\<rparr>)"
    unfolding read_message_begin_framing [OF b1 refl, THEN conjunct1, THEN mp, OF b2]
    by code_simp
  have s1: "stream ?strict = 0x80 # 1 # 0 # 1 # [0, 0, 0, 2, 0x41, 0x42, 0, 0, 0, 7, 0]"
    by (simp add: new_decoder_def)
  have s2a: "be_sint [0x80, 1, 0, 1] < 0 \<and> be_sint [0x80, 1, 0, 1] AND 0xFFFF0000 = 0x80010000"
    by code_simp
  have s2b: "be_sint [0, 0, 0, 2] = int (length [0x41 :: byte, 0x42])"
    by code_simp
  have s2: "be_sint [0x80, 1, 0, 1] < 0 \<and> be_sint [0x80, 1, 0, 1] AND 0xFFFF0000 = 0x80010000 \<and>
      [0, 0, 0, 2, 0x41, 0x42, 0, 0, 0, 7, 0] = 0 # 0 # 0 # 2 # [0x41, 0x42] @ 0 # 0 # 0 # 7 # [0] \<and>
      be_sint [0, 0, 0, 2] = int (length [0x41 :: byte, 0x42]) \<and>
      length [0x41 :: byte, 0x42] \<le> 10485760"
    using s2a s2b by simp
  have rs: "read_message_begin ?strict = (Inr (''AB'', 1, 7), ?strict\<lparr>stream := [0], pos := 14\<rparr>)"
    unfolding read_message_begin_framing [OF s1 refl, THEN conjunct2, THEN conjunct1, THEN mp, OF s2]
    by code_simp
  have l1: "stream ?legacy = 0 # 0 # 0 # 2 # [0x41, 0x42, 1, 0, 0, 0, 7, 0]"
    by (simp add: new_decoder_def)
  have l2a: "0 \<le> be_sint [0, 0, 0, 2] \<and> utf8_valid [0x41, 0x42]"
    by code_simp
  have l2: "0 \<le> be_sint [0, 0, 0, 2] \<and>
      [0x41, 0x42, 1, 0, 0, 0, 7, 0] = [0x41, 0x42] @ 1 # 0 # 0 # 0 # 7 # [0] \<and>
      be_sint [0, 0, 0, 2] = int (length [0x41 :: byte, 0x42]) \<and> utf8_valid [0x41, 0x42]"
    using l2a s2b by simp
  have rl: "read_message_begin ?legacy = (Inr (''AB'', 1, 7), ?legacy\<lparr>stream := [0], pos := 11\<rparr>)"
    unfolding read_message_begin_framing [OF l1 refl, THEN conjunct2, THEN conjunct2, THEN mp, OF l2]
    by code_simp
  from rb rs rl show ?thesis by blast
qed

end
